theory Spec2Isabelle
  imports Complex_Main "HOL-Library.Word"
begin

section \<open>The string hasher of \<open>src/index.ts\<close>\<close>

text \<open>
  The embedding follows \<open>src/index.ts\<close>. JavaScript numbers are taken to be integers
  (the option fields are lengths and counts); the three divisions of the source
  (\<open>saltLength / 2\<close>, \<open>hashLength / 2\<close>, \<open>hashLength / 3\<close>) are exact and are
  therefore carried out in \<open>rat\<close>; option values that are not integers (fractions,
  \<open>NaN\<close>, the infinities) and integers beyond the exact range of a double are outside
  the model. Strings are lists of characters, buffers are lists of bytes. An exception
  is a value \<open>Inl e\<close> of the result.
\<close>

subsection \<open>Types of the module\<close>

text \<open>The union type \<open>HmacDigest\<close> (lines 4 to 56), one constructor per literal.\<close>

datatype HmacDigest =
    RSA_MD5 | RSA_RIPEMD160 | RSA_SHA1 | RSA_SHA1_2 | RSA_SHA224 | RSA_SHA256
  | RSA_SHA3_224 | RSA_SHA3_256 | RSA_SHA3_384 | RSA_SHA3_512 | RSA_SHA384
  | RSA_SHA512 | RSA_SHA512_224 | RSA_SHA512_256 | RSA_SM3 | blake2b512
  | blake2s256 | id_rsassa_pkcs1_v1_5_with_sha3_224
  | id_rsassa_pkcs1_v1_5_with_sha3_256 | id_rsassa_pkcs1_v1_5_with_sha3_384
  | id_rsassa_pkcs1_v1_5_with_sha3_512 | md5 | md5_sha1 | md5WithRSAEncryption
  | ripemd | ripemd160 | ripemd160WithRSA | rmd160 | sha1 | sha1WithRSAEncryption
  | sha224 | sha224WithRSAEncryption | sha256 | sha256WithRSAEncryption
  | sha3_224 | sha3_256 | sha3_384 | sha3_512 | sha384 | sha384WithRSAEncryption
  | sha512 | sha512_224 | sha512_224WithRSAEncryption | sha512_256
  | sha512_256WithRSAEncryption | sha512WithRSAEncryption | shake128 | shake256
  | sm3 | sm3WithRSAEncryption | ssl3_md5 | ssl3_sha1

text \<open>
  Errors raised by the platform (\<open>crypto\<close>) and what a call of the module can throw:
  a \<open>StringHashError\<close> with its message and inner error, or a platform error that
  no \<open>try\<close> of the module catches.
\<close>

datatype node_error =
    ERR_OUT_OF_RANGE
  | ERR_CRYPTO_TIMING_SAFE_EQUAL_LENGTH
  | ERR_OTHER string

datatype thrown =
    StringHashError string "node_error option"
  | Uncaught node_error

type_synonym byte = "8 word"
type_synonym Buffer = "byte list"

text \<open>\<open>StringHashOptions\<close>: every field is optional.\<close>

record StringHashOptions =
  opt_signature :: "string option"
  opt_algorythm :: "HmacDigest option"
  opt_saltLength :: "int option"
  opt_hashLength :: "int option"
  opt_iterations :: "int option"

text \<open>The fields of a \<open>StringHasher\<close> instance.\<close>

record StringHasher =
  signature :: string
  algorythm :: HmacDigest
  saltLength :: int
  hashLength :: int
  buffLength :: int
  iterations :: int

subsection \<open>Platform functions\<close>

text \<open>
  \<open>String.prototype.trim\<close> removes white space and line terminators at both ends
  (the characters below are those with a code under 256).
\<close>

definition is_white_space :: "char \<Rightarrow> bool" where
  "is_white_space c \<longleftrightarrow>
     (of_char c :: nat) \<in> {0x09, 0x0A, 0x0B, 0x0C, 0x0D, 0x20, 0xA0}"

definition trim :: "string \<Rightarrow> string" where
  "trim s = rev (dropWhile is_white_space (rev (dropWhile is_white_space s)))"

text \<open>
  \<open>String.prototype.substring(start, end)\<close>: both indices are clamped to
  \<open>0 .. length\<close> and swapped when \<open>start > end\<close>; with one argument the end is
  the length of the string.
\<close>

definition substring :: "string \<Rightarrow> int \<Rightarrow> int \<Rightarrow> string" where
  "substring s start end' =
     (let n = int (length s);
          a = max 0 (min start n);
          b = max 0 (min end' n);
          lo = min a b;
          hi = max a b
      in take (nat (hi - lo)) (drop (nat lo) s))"

definition substring_from :: "string \<Rightarrow> int \<Rightarrow> string" where
  "substring_from s start = substring s start (int (length s))"

text \<open>\<open>Buffer.prototype.toString("hex")\<close>: two lower-case digits per byte.\<close>

definition hex_digit :: "nat \<Rightarrow> char" where
  "hex_digit n = ''0123456789abcdef'' ! n"

definition to_hex :: "Buffer \<Rightarrow> string" where
  "to_hex bs = concat (map (\<lambda>b. [hex_digit (unat b div 16), hex_digit (unat b mod 16)]) bs)"

text \<open>
  \<open>Buffer.from(str, "hex")\<close>: reads pairs of hexadecimal digits of either case and
  stops at the first pair that is not one; a trailing single character is dropped.
\<close>

definition hex_value :: "char \<Rightarrow> nat option" where
  "hex_value c =
     (let k = (of_char c :: nat)
      in if 48 \<le> k \<and> k \<le> 57 then Some (k - 48)
         else if 97 \<le> k \<and> k \<le> 102 then Some (k - 87)
         else if 65 \<le> k \<and> k \<le> 70 then Some (k - 55)
         else None)"

fun from_hex :: "string \<Rightarrow> Buffer" where
  "from_hex (a # b # rest) =
     (case hex_value a of
        None \<Rightarrow> []
      | Some x \<Rightarrow>
          (case hex_value b of
             None \<Rightarrow> []
           | Some y \<Rightarrow> word_of_nat (16 * x + y) # from_hex rest))"
| "from_hex _ = []"

text \<open>
  \<open>crypto.timingSafeEqual(a, b)\<close> throws when the byte lengths differ and compares
  the contents otherwise.
\<close>

definition timingSafeEqual :: "Buffer \<Rightarrow> Buffer \<Rightarrow> thrown + bool" where
  "timingSafeEqual a b =
     (if length a \<noteq> length b then Inl (Uncaught ERR_CRYPTO_TIMING_SAFE_EQUAL_LENGTH)
      else Inr (a = b))"

text \<open>
  The random source and the key derivation function are collaborators of the module,
  imported from \<open>crypto\<close>; the model takes them as parameters. Both receive the
  requested size as the number the source computes (a half-integer when the length
  is odd) and either throw or return a buffer.
\<close>

record crypto =
  randomBytes :: "rat \<Rightarrow> node_error + Buffer"
  pbkdf2Sync :: "string \<Rightarrow> Buffer \<Rightarrow> int \<Rightarrow> rat \<Rightarrow> HmacDigest \<Rightarrow> node_error + Buffer"

text \<open>
  What is assumed of the collaborators where a statement needs it: asked for a whole
  number of bytes, each returns a buffer of that many bytes.
\<close>

definition returns_requested_length :: "crypto \<Rightarrow> bool" where
  "returns_requested_length cr \<longleftrightarrow>
     (\<forall>n. \<exists>bs. randomBytes cr (of_nat n) = Inr bs \<and> length bs = n) \<and>
     (\<forall>pw salt it n dig. \<exists>bs. pbkdf2Sync cr pw salt it (of_nat n) dig = Inr bs \<and> length bs = n)"

text \<open>
  An instance of the collaborators, for concrete evaluation. It validates its size
  arguments the way Node does: \<open>randomBytes\<close> converts a fractional size to an unsigned
  integer by truncation, \<open>pbkdf2Sync\<close> rejects a key length that is not an integer.
  The derived bytes are a fixed function of password, salt, iteration count and digest.
\<close>

definition example_randomBytes :: "rat \<Rightarrow> node_error + Buffer" where
  "example_randomBytes sz =
     (if sz < 0 then Inl ERR_OUT_OF_RANGE
      else Inr (map word_of_nat [0 ..< nat \<lfloor>sz\<rfloor>]))"

definition example_pbkdf2Sync ::
    "string \<Rightarrow> Buffer \<Rightarrow> int \<Rightarrow> rat \<Rightarrow> HmacDigest \<Rightarrow> node_error + Buffer" where
  "example_pbkdf2Sync pw salt it keylen dig =
     (if keylen < 0 \<or> of_int \<lfloor>keylen\<rfloor> \<noteq> keylen then Inl ERR_OUT_OF_RANGE
      else Inr (replicate (nat \<lfloor>keylen\<rfloor>)
                  (word_of_nat (length pw + length salt) + sum_list salt + word_of_int it)))"

definition example_crypto :: crypto where
  "example_crypto =
     \<lparr>randomBytes = example_randomBytes, pbkdf2Sync = example_pbkdf2Sync\<rparr>"

text \<open>Collaborators that throw at every call.\<close>

definition unavailable_crypto :: crypto where
  "unavailable_crypto =
     \<lparr>randomBytes = \<lambda>_. Inl (ERR_OTHER ''unavailable''),
      pbkdf2Sync = \<lambda>_ _ _ _ _. Inl (ERR_OTHER ''unavailable'')\<rparr>"

subsection \<open>The constructor (lines 131 to 163)\<close>

text \<open>The field initialisers of the class.\<close>

definition initial_fields :: StringHasher where
  "initial_fields =
     \<lparr>signature = ''sha512'', algorythm = sha512, saltLength = 32, hashLength = 128,
      buffLength = 90, iterations = 100000\<rparr>"

text \<open>
  Lines 146 to 150: a field of the options is copied only when it is truthy, that is,
  present and neither the empty string nor zero.
\<close>

definition apply_options :: "StringHashOptions \<Rightarrow> StringHasher \<Rightarrow> StringHasher" where
  "apply_options options this =
     (let this = (case opt_signature options of
                    Some s \<Rightarrow> if s \<noteq> [] then this\<lparr>signature := trim s\<rparr> else this
                  | None \<Rightarrow> this);
          this = (case opt_algorythm options of
                    Some a \<Rightarrow> this\<lparr>algorythm := a\<rparr>
                  | None \<Rightarrow> this);
          this = (case opt_saltLength options of
                    Some n \<Rightarrow> if n \<noteq> 0 then this\<lparr>saltLength := n\<rparr> else this
                  | None \<Rightarrow> this);
          this = (case opt_hashLength options of
                    Some n \<Rightarrow> if n \<noteq> 0 then this\<lparr>hashLength := n\<rparr> else this
                  | None \<Rightarrow> this);
          this = (case opt_iterations options of
                    Some n \<Rightarrow> if n \<noteq> 0 then this\<lparr>iterations := n\<rparr> else this
                  | None \<Rightarrow> this)
      in this)"

definition StringHasher_new :: "StringHashOptions option \<Rightarrow> thrown + StringHasher" where
  "StringHasher_new options =
     (case options of
        None \<Rightarrow> Inr initial_fields
      | Some opts \<Rightarrow>
          (let this = apply_options opts initial_fields in
           if saltLength this \<le> 0 then
             Inl (StringHashError ''Salt length cannot be less than or equals zero.'' None)
           else if hashLength this \<le> 0 then
             Inl (StringHashError ''Hash length cannot be less than or equals zero.'' None)
           else if iterations this < 1000 then
             Inl (StringHashError ''Iterations count cannot be less than 1000.'' None)
           else if (of_int (hashLength this) :: rat) / 2 < of_int (saltLength this) then
             Inl (StringHashError ''Salt length cannot be less than half of hash length.'' None)
           else if ((of_int (hashLength this) :: rat) / 3) * 2
                     < of_int (saltLength this + int (length (signature this))) then
             Inl (StringHashError
               ''Salt length combined with signature length cannot be more than 2/3 of hash length.''
               None)
           else
             Inr (this\<lparr>buffLength :=
                    hashLength this - saltLength this - int (length (signature this))\<rparr>)))"

subsection \<open>Generating and validating (lines 165 to 200)\<close>

definition generateSalt :: "crypto \<Rightarrow> StringHasher \<Rightarrow> thrown + Buffer" where
  "generateSalt cr this =
     (case randomBytes cr (of_int (saltLength this) / 2) of
        Inl e \<Rightarrow> Inl (StringHashError ''Unable to generate salt.'' (Some e))
      | Inr salt \<Rightarrow> Inr salt)"

definition generateHash :: "crypto \<Rightarrow> StringHasher \<Rightarrow> string \<Rightarrow> Buffer \<Rightarrow> thrown + Buffer" where
  "generateHash cr this val salt =
     (case pbkdf2Sync cr val salt (iterations this) (of_int (buffLength this) / 2)
             (algorythm this) of
        Inl e \<Rightarrow> Inl (StringHashError ''Unable to generate hash.'' (Some e))
      | Inr hash \<Rightarrow> Inr hash)"

definition generate :: "crypto \<Rightarrow> StringHasher \<Rightarrow> string \<Rightarrow> thrown + string" where
  "generate cr this val =
     (case generateSalt cr this of
        Inl e \<Rightarrow> Inl e
      | Inr salt \<Rightarrow>
          (case generateHash cr this val salt of
             Inl e \<Rightarrow> Inl e
           | Inr hash \<Rightarrow> Inr (signature this @ to_hex (hash @ salt))))"

definition validate :: "crypto \<Rightarrow> StringHasher \<Rightarrow> string \<Rightarrow> string \<Rightarrow> thrown + bool" where
  "validate cr this val hash =
     (if length val = 0 \<or> int (length hash) \<noteq> hashLength this then Inr False
      else if signature this \<noteq> substring hash 0 (int (length (signature this))) then Inr False
      else
        (let hashStr = substring hash (int (length (signature this)))
                         (hashLength this - saltLength this);
             saltStr = substring_from hash (int (length (signature this)) + buffLength this);
             saltBuff = from_hex saltStr;
             hashBuff = from_hex hashStr
         in case generateHash cr this val saltBuff of
              Inl e \<Rightarrow> Inl e
            | Inr testBuff \<Rightarrow> timingSafeEqual hashBuff testBuff))"

text \<open>\<open>validate(value, generate(value))\<close>: an exception of \<open>generate\<close> ends the expression.\<close>

definition validate_generated :: "crypto \<Rightarrow> StringHasher \<Rightarrow> string \<Rightarrow> thrown + bool" where
  "validate_generated cr this val =
     (case generate cr this val of
        Inl e \<Rightarrow> Inl e
      | Inr hash \<Rightarrow> validate cr this val hash)"

subsection \<open>Inputs used below\<close>

text \<open>An options object with no field, \<open>{}\<close>.\<close>

definition no_options :: StringHashOptions where
  "no_options =
     \<lparr>opt_signature = None, opt_algorythm = None, opt_saltLength = None,
      opt_hashLength = None, opt_iterations = None\<rparr>"

text \<open>
  The options of the read-me's example (\<open>readme.md\<close>, "Full example"), and the
  instance the constructor builds from them.
\<close>

definition readme_options :: StringHashOptions where
  "readme_options =
     \<lparr>opt_signature = Some ''hash512'', opt_algorythm = Some sha512,
      opt_saltLength = Some 32, opt_hashLength = Some 128, opt_iterations = Some 100000\<rparr>"

definition readme_hasher :: StringHasher where
  "readme_hasher =
     \<lparr>signature = ''hash512'', algorythm = sha512, saltLength = 32, hashLength = 128,
      buffLength = 89, iterations = 100000\<rparr>"

text \<open>
  A hash of the right length and signature for the instance built without options,
  whose derived segment starts with two characters that are not hexadecimal digits.
\<close>

definition malformed_hash :: string where
  "malformed_hash = ''sha512'' @ ''zz'' @ replicate 88 (CHR ''0'') @ replicate 32 (CHR ''0'')"

text \<open>The collaborators at a call where the random source yields \<open>salt\<close>.\<close>

definition with_salt :: "crypto \<Rightarrow> Buffer \<Rightarrow> crypto" where
  "with_salt cr salt = cr\<lparr>randomBytes := \<lambda>_. Inr salt\<rparr>"

subsection \<open>The invariants in the words of the specification\<close>

text \<open>
  The five invariants of a configuration in their check order, each with the error
  reported for it, and the error of the first one that a configuration violates.
\<close>

definition invariants :: "((StringHasher \<Rightarrow> bool) \<times> thrown) list" where
  "invariants =
     [(\<lambda>h. saltLength h > 0,
         StringHashError ''Salt length cannot be less than or equals zero.'' None),
      (\<lambda>h. hashLength h > 0,
         StringHashError ''Hash length cannot be less than or equals zero.'' None),
      (\<lambda>h. iterations h \<ge> 1000,
         StringHashError ''Iterations count cannot be less than 1000.'' None),
      (\<lambda>h. 2 * saltLength h \<le> hashLength h,
         StringHashError ''Salt length cannot be less than half of hash length.'' None),
      (\<lambda>h. 3 * (saltLength h + int (length (signature h))) \<le> 2 * hashLength h,
         StringHashError
           ''Salt length combined with signature length cannot be more than 2/3 of hash length.''
           None)]"

definition first_violated :: "StringHasher \<Rightarrow> thrown option" where
  "first_violated h = map_option snd (find (\<lambda>p. \<not> fst p h) invariants)"

section \<open>Auxiliary facts\<close>

subsection \<open>The constructor's checks over the integers\<close>

lemma half_less_iff: "((of_int h :: rat) / 2 < of_int s) = (h < 2 * s)"
proof -
  have "((of_int h :: rat) / 2 < of_int s) = ((of_int h :: rat) < of_int (2 * s))"
    by (simp add: field_simps)
  also have "\<dots> = (h < 2 * s)" by (simp only: of_int_less_iff)
  finally show ?thesis .
qed

lemma two_thirds_less_iff: "(((of_int h :: rat) / 3) * 2 < of_int t) = (2 * h < 3 * t)"
proof -
  have "(((of_int h :: rat) / 3) * 2 < of_int t) = ((of_int (2 * h) :: rat) < of_int (3 * t))"
    by (simp add: field_simps)
  also have "\<dots> = (2 * h < 3 * t)" by (simp only: of_int_less_iff)
  finally show ?thesis .
qed

lemma StringHasher_new_checks:
  "StringHasher_new (Some opts) =
     (let this = apply_options opts initial_fields in
      if saltLength this \<le> 0 then
        Inl (StringHashError ''Salt length cannot be less than or equals zero.'' None)
      else if hashLength this \<le> 0 then
        Inl (StringHashError ''Hash length cannot be less than or equals zero.'' None)
      else if iterations this < 1000 then
        Inl (StringHashError ''Iterations count cannot be less than 1000.'' None)
      else if hashLength this < 2 * saltLength this then
        Inl (StringHashError ''Salt length cannot be less than half of hash length.'' None)
      else if 2 * hashLength this < 3 * (saltLength this + int (length (signature this))) then
        Inl (StringHashError
          ''Salt length combined with signature length cannot be more than 2/3 of hash length.''
          None)
      else
        Inr (this\<lparr>buffLength :=
               hashLength this - saltLength this - int (length (signature this))\<rparr>))"
  unfolding StringHasher_new_def by (simp only: half_less_iff two_thirds_less_iff option.case)

lemma StringHasher_new_fields:
  assumes "StringHasher_new options = Inr this"
  shows "buffLength this = hashLength this - saltLength this - int (length (signature this))"
    and "0 < buffLength this"
    and "0 < saltLength this"
proof -
  have "buffLength this = hashLength this - saltLength this - int (length (signature this))
      \<and> 0 < buffLength this \<and> 0 < saltLength this"
  proof (cases options)
    case None
    with assms show ?thesis by (auto simp: StringHasher_new_def initial_fields_def)
  next
    case (Some opts)
    with assms have "StringHasher_new (Some opts) = Inr this" by simp
    then show ?thesis
      unfolding StringHasher_new_checks by (auto simp: Let_def split: if_splits)
  qed
  then show "buffLength this = hashLength this - saltLength this - int (length (signature this))"
    and "0 < buffLength this" and "0 < saltLength this"
    by simp_all
qed

lemma readme_hasher_new: "StringHasher_new (Some readme_options) = Inr readme_hasher"
  by (simp add: StringHasher_new_def apply_options_def initial_fields_def readme_options_def
      readme_hasher_def trim_def is_white_space_def)

section \<open>The constructor\<close>

text \<open>
  C3. A \<open>StringHasher\<close> built without options is said to have the empty signature.
  The field initialiser of the class (line 131) is \<open>"sha512"\<close>: built without
  options, or from an options object with no field, the instance has the signature
  \<open>sha512\<close>, the digest sha512, salt length 32, hash length 128 and 100000 iterations.
\<close>

theorem default_signature_is_sha512:
  "StringHasher_new None = Inr initial_fields
   \<and> StringHasher_new (Some no_options) = Inr initial_fields
   \<and> signature initial_fields = ''sha512''
   \<and> algorythm initial_fields = sha512
   \<and> saltLength initial_fields = 32
   \<and> hashLength initial_fields = 128
   \<and> iterations initial_fields = 100000"
  by (simp add: StringHasher_new_def initial_fields_def apply_options_def no_options_def)

text \<open>
  C4. Options whose only field is \<open>saltLength = 0\<close> are said to be refused with the
  salt length error. Line 148 copies the field only when it is truthy, so the zero never
  reaches the check of line 153: the constructor returns the instance with salt length 32.
\<close>

theorem zero_saltLength_constructs:
  "StringHasher_new (Some (no_options\<lparr>opt_saltLength := Some 0\<rparr>)) = Inr initial_fields
   \<and> saltLength initial_fields = 32"
  by (simp add: StringHasher_new_def initial_fields_def apply_options_def no_options_def)

text \<open>
  C7. A failed construction reports one error, that of the first violated invariant in
  the order salt length positive, hash length positive, at least 1000 iterations, salt
  at most half of the hash length, salt plus signature at most two thirds of it. The
  invariants are read on the fields after the options were applied. Options with
  \<open>saltLength = -5\<close> and \<open>iterations = 5\<close> violate the first and the third and
  report the salt length error.
\<close>

theorem first_violated_invariant_is_reported:
  "(StringHasher_new (Some opts) = Inl e \<longleftrightarrow>
      first_violated (apply_options opts initial_fields) = Some e)
   \<and> StringHasher_new
         (Some (no_options\<lparr>opt_saltLength := Some (- 5), opt_iterations := Some 5\<rparr>))
       = Inl (StringHashError ''Salt length cannot be less than or equals zero.'' None)"
proof
  show "StringHasher_new (Some opts) = Inl e \<longleftrightarrow>
      first_violated (apply_options opts initial_fields) = Some e"
    unfolding StringHasher_new_checks first_violated_def invariants_def
    by (auto simp: Let_def)
  show "StringHasher_new
         (Some (no_options\<lparr>opt_saltLength := Some (- 5), opt_iterations := Some 5\<rparr>))
       = Inl (StringHashError ''Salt length cannot be less than or equals zero.'' None)"
    by (simp add: StringHasher_new_def initial_fields_def apply_options_def no_options_def)
qed

text \<open>
  C8. For every instance the constructor returns, with or without options,
  \<open>buffLength\<close> is \<open>hashLength - saltLength - signature.length\<close> and is positive.
\<close>

theorem buffLength_is_remainder_and_positive:
  "StringHasher_new options = Inr this \<Longrightarrow>
     buffLength this = hashLength this - saltLength this - int (length (signature this))
     \<and> 0 < buffLength this"
  using StringHasher_new_fields [of options this] by simp

theorem buffLength_is_remainder_and_positive_witness:
  "StringHasher_new None = Inr initial_fields
   \<and> StringHasher_new (Some readme_options) = Inr readme_hasher
   \<and> buffLength initial_fields = 128 - 32 - 6 \<and> 0 < buffLength initial_fields
   \<and> buffLength readme_hasher = 128 - 32 - 7 \<and> 0 < buffLength readme_hasher"
proof -
  have a: "StringHasher_new None = Inr initial_fields"
    by (simp add: StringHasher_new_def)
  have b: "StringHasher_new (Some readme_options) = Inr readme_hasher"
    by (rule readme_hasher_new)
  show ?thesis
    using a b buffLength_is_remainder_and_positive [OF a]
      buffLength_is_remainder_and_positive [OF b]
    by (simp add: initial_fields_def readme_hasher_def)
qed

text \<open>
  C10. A field of the options whose value is falsy (zero for a number, the empty string
  for the signature) is treated as an absent field: the constructor gives the same
  result, so the value of the field initialiser stays and the supplied value is never
  checked. Options with \<open>saltLength = 0\<close> and \<open>iterations = 0\<close> construct an instance
  with salt length 32 and 100000 iterations.
\<close>

theorem falsy_field_is_absent_field:
  "StringHasher_new (Some (opts\<lparr>opt_signature := Some ''''\<rparr>))
     = StringHasher_new (Some (opts\<lparr>opt_signature := None\<rparr>))
   \<and> StringHasher_new (Some (opts\<lparr>opt_saltLength := Some 0\<rparr>))
     = StringHasher_new (Some (opts\<lparr>opt_saltLength := None\<rparr>))
   \<and> StringHasher_new (Some (opts\<lparr>opt_hashLength := Some 0\<rparr>))
     = StringHasher_new (Some (opts\<lparr>opt_hashLength := None\<rparr>))
   \<and> StringHasher_new (Some (opts\<lparr>opt_iterations := Some 0\<rparr>))
     = StringHasher_new (Some (opts\<lparr>opt_iterations := None\<rparr>))
   \<and> StringHasher_new
         (Some (no_options\<lparr>opt_saltLength := Some 0, opt_iterations := Some 0\<rparr>))
       = Inr initial_fields
   \<and> saltLength initial_fields = 32
   \<and> iterations initial_fields = 100000"
  by (simp add: StringHasher_new_def initial_fields_def apply_options_def no_options_def)

section \<open>Generating and validating\<close>

subsection \<open>Hexadecimal text and substrings\<close>

lemma hex_digits_decode: "list_all (\<lambda>n. hex_value (hex_digit n) = Some n) [0..<16]"
  by code_simp

lemma hex_value_hex_digit: "n < 16 \<Longrightarrow> hex_value (hex_digit n) = Some n"
  using hex_digits_decode by (simp add: list_all_iff)

lemma from_hex_to_hex: "from_hex (to_hex bs) = bs"
proof (induction bs)
  case Nil
  show ?case by (simp add: to_hex_def)
next
  case (Cons b bs)
  have lt: "unat b < 256" using unsigned_less [of b, where ?'a = nat] by simp
  then have hi: "unat b div 16 < 16" by simp
  have lo: "unat b mod 16 < 16" by simp
  have "to_hex (b # bs) = hex_digit (unat b div 16) # hex_digit (unat b mod 16) # to_hex bs"
    by (simp add: to_hex_def)
  then have "from_hex (to_hex (b # bs)) =
      word_of_nat (16 * (unat b div 16) + unat b mod 16) # from_hex (to_hex bs)"
    by (simp add: hex_value_hex_digit [OF hi] hex_value_hex_digit [OF lo])
  also have "16 * (unat b div 16) + unat b mod 16 = unat b" by simp
  finally show ?case using Cons.IH by simp
qed

lemma length_to_hex: "length (to_hex bs) = 2 * length bs"
  by (induction bs) (simp_all add: to_hex_def)

lemma to_hex_append: "to_hex (xs @ ys) = to_hex xs @ to_hex ys"
  by (simp add: to_hex_def)

lemma to_hex_inj: "to_hex xs = to_hex ys \<Longrightarrow> xs = ys"
  by (metis from_hex_to_hex)

lemma substring_between:
  assumes "0 \<le> a" and "a \<le> b" and "b \<le> int (length s)"
  shows "substring s a b = take (nat (b - a)) (drop (nat a) s)"
proof -
  from assms have a: "min a (int (length s)) = a" "max 0 a = a" by simp_all
  from assms have b: "min b (int (length s)) = b" "max 0 b = b" by simp_all
  from assms have ab: "min a b = a" "max a b = b" by simp_all
  show ?thesis
    unfolding substring_def Let_def a b ab ..
qed

lemma substring_prefix: "substring s 0 (int n) = take n s"
proof (cases "n \<le> length s")
  case True
  then show ?thesis using substring_between [of 0 "int n" s] by simp
next
  case False
  then have "min (int n) (int (length s)) = int (length s)" by simp
  then have "substring s 0 (int n) = substring s 0 (int (length s))"
    by (simp add: substring_def)
  also have "\<dots> = take (length s) s"
    using substring_between [of 0 "int (length s)" s] by simp
  finally show ?thesis using False by simp
qed

lemma substring_middle:
  "substring (xs @ ys @ zs) (int (length xs)) (int (length xs) + int (length ys)) = ys"
  using substring_between
    [of "int (length xs)" "int (length xs) + int (length ys)" "xs @ ys @ zs"]
  by simp

lemma substring_from_suffix:
  "substring_from (xs @ ys @ zs) (int (length xs) + int (length ys)) = zs"
  unfolding substring_from_def
  using substring_between
    [of "int (length xs) + int (length ys)" "int (length (xs @ ys @ zs))" "xs @ ys @ zs"]
  by (simp add: nat_add_distrib)

subsection \<open>The collaborators on whole sizes\<close>

lemma example_crypto_returns_requested_length: "returns_requested_length example_crypto"
  by (simp add: returns_requested_length_def example_crypto_def example_randomBytes_def
      example_pbkdf2Sync_def)

lemma generateSalt_even:
  assumes "returns_requested_length cr" and "saltLength this = 2 * int s"
  shows "\<exists>salt. generateSalt cr this = Inr salt \<and> length salt = s"
proof -
  from assms(1) obtain salt where "randomBytes cr (of_nat s) = Inr salt" "length salt = s"
    unfolding returns_requested_length_def by blast
  then show ?thesis
    by (simp add: generateSalt_def assms(2))
qed

lemma generateHash_even:
  assumes "returns_requested_length cr" and "buffLength this = 2 * int b"
  shows "\<exists>hash. generateHash cr this val salt = Inr hash \<and> length hash = b"
proof -
  from assms(1) obtain hash where
    "pbkdf2Sync cr val salt (iterations this) (of_nat b) (algorythm this) = Inr hash"
    "length hash = b"
    unfolding returns_requested_length_def by blast
  then show ?thesis
    by (simp add: generateHash_def assms(2))
qed

lemma even_positive_int: "even (k :: int) \<Longrightarrow> 0 < k \<Longrightarrow> \<exists>n. k = 2 * int n"
proof -
  assume "even k" "0 < k"
  then have "k = 2 * int (nat (k div 2))" by auto
  then show ?thesis ..
qed

subsection \<open>What \<open>generate\<close> returns, and \<open>validate\<close> on such a string\<close>

lemma generate_layout:
  assumes "generate cr this val = Inr h"
  shows "\<exists>salt hash. generateSalt cr this = Inr salt
           \<and> generateHash cr this val salt = Inr hash
           \<and> h = signature this @ to_hex hash @ to_hex salt"
  using assms by (auto simp: generate_def to_hex_append split: sum.splits)

lemma generate_length:
  assumes "generate cr this val = Inr h"
  shows "\<exists>k. length h = length (signature this) + 2 * k"
proof -
  from generate_layout [OF assms] obtain salt hash
    where "h = signature this @ to_hex hash @ to_hex salt" by blast
  then have "length h = length (signature this) + 2 * (length hash + length salt)"
    by (simp add: length_to_hex)
  then show ?thesis ..
qed

lemma validate_other_length:
  "int (length hash) \<noteq> hashLength this \<Longrightarrow> validate cr this val hash = Inr False"
  by (simp add: validate_def)

lemma validate_encoded:
  assumes hash: "generateHash cr this val salt = Inr hash"
    and val: "val \<noteq> []"
    and total: "hashLength this =
        int (length (signature this)) + 2 * int (length hash) + 2 * int (length salt)"
    and sl: "saltLength this = 2 * int (length salt)"
    and bl: "buffLength this = 2 * int (length hash)"
  shows "validate cr this val (signature this @ to_hex hash @ to_hex salt) = Inr True"
proof -
  let ?sig = "signature this"
  let ?enc = "?sig @ to_hex hash @ to_hex salt"
  have len: "int (length ?enc) = hashLength this"
    by (simp add: total length_to_hex)
  have pre: "substring ?enc 0 (int (length ?sig)) = ?sig"
    by (simp add: substring_prefix)
  have "hashLength this - saltLength this = int (length ?sig) + int (length (to_hex hash))"
    by (simp add: total sl length_to_hex)
  then have mid:
    "substring ?enc (int (length ?sig)) (hashLength this - saltLength this) = to_hex hash"
    by (simp only: substring_middle)
  have "int (length ?sig) + buffLength this = int (length ?sig) + int (length (to_hex hash))"
    by (simp add: bl length_to_hex)
  then have suf: "substring_from ?enc (int (length ?sig) + buffLength this) = to_hex salt"
    by (simp only: substring_from_suffix)
  show ?thesis
    unfolding validate_def Let_def len pre mid suf from_hex_to_hex hash
    using val by (simp add: timingSafeEqual_def)
qed

text \<open>
  Where both the salt length and the remaining length are even and the collaborators
  return what they are asked for, \<open>generate\<close> returns a string of \<open>hashLength\<close>
  characters that \<open>validate\<close> accepts.
\<close>

lemma generate_even:
  assumes new: "StringHasher_new options = Inr this"
    and cr: "returns_requested_length cr"
    and sl: "even (saltLength this)"
    and bl: "even (buffLength this)"
  shows "\<exists>salt hash. generate cr this val = Inr (signature this @ to_hex hash @ to_hex salt)
           \<and> generateHash cr this val salt = Inr hash
           \<and> saltLength this = 2 * int (length salt)
           \<and> buffLength this = 2 * int (length hash)"
proof -
  from even_positive_int [OF sl StringHasher_new_fields(3) [OF new]]
  obtain s where s: "saltLength this = 2 * int s" ..
  from even_positive_int [OF bl StringHasher_new_fields(2) [OF new]]
  obtain b where b: "buffLength this = 2 * int b" ..
  from generateSalt_even [OF cr s] obtain salt where
    salt: "generateSalt cr this = Inr salt" "length salt = s" by blast
  from generateHash_even [OF cr b] obtain hash where
    hash: "generateHash cr this val salt = Inr hash" "length hash = b" by blast
  have "generate cr this val = Inr (signature this @ to_hex hash @ to_hex salt)"
    by (simp add: generate_def salt hash to_hex_append)
  with hash s b salt(2) show ?thesis by auto
qed

lemma validate_generated_even:
  assumes new: "StringHasher_new options = Inr this"
    and cr: "returns_requested_length cr"
    and sl: "even (saltLength this)"
    and bl: "even (buffLength this)"
    and val: "val \<noteq> []"
  shows "validate_generated cr this val = Inr True"
proof -
  from generate_even [OF new cr sl bl, of val] obtain salt hash where
    gen: "generate cr this val = Inr (signature this @ to_hex hash @ to_hex salt)"
    and hash: "generateHash cr this val salt = Inr hash"
    and s: "saltLength this = 2 * int (length salt)"
    and b: "buffLength this = 2 * int (length hash)"
    by blast
  have "validate cr this val (signature this @ to_hex hash @ to_hex salt) = Inr True"
    using hash val
  proof (rule validate_encoded)
    show "hashLength this =
        int (length (signature this)) + 2 * int (length hash) + 2 * int (length salt)"
      using StringHasher_new_fields(1) [OF new] s b by simp
  qed (rule s, rule b)
  then show ?thesis by (simp add: validate_generated_def gen)
qed

lemma generate_even_length:
  assumes new: "StringHasher_new options = Inr this"
    and cr: "returns_requested_length cr"
    and sl: "even (saltLength this)"
    and bl: "even (buffLength this)"
  shows "\<exists>h. generate cr this val = Inr h \<and> int (length h) = hashLength this"
proof -
  from generate_even [OF new cr sl bl, of val] obtain salt hash where
    gen: "generate cr this val = Inr (signature this @ to_hex hash @ to_hex salt)"
    and s: "saltLength this = 2 * int (length salt)"
    and b: "buffLength this = 2 * int (length hash)"
    by blast
  have "int (length (signature this @ to_hex hash @ to_hex salt)) = hashLength this"
    using StringHasher_new_fields(1) [OF new] s b by (simp add: length_to_hex)
  with gen show ?thesis by blast
qed

text \<open>Two runs whose salts differ (and have one length) return different strings.\<close>

lemma generate_with_salt:
  assumes "generate (with_salt cr salt) this val = Inr h"
  shows "\<exists>hash. h = signature this @ to_hex (hash @ salt)"
  using assms
  by (auto simp: generate_def generateSalt_def with_salt_def split: sum.splits)

lemma generate_distinct_salts:
  assumes g1: "generate (with_salt cr salt1) this val = Inr h1"
    and g2: "generate (with_salt cr salt2) this val = Inr h2"
    and len: "length salt1 = length salt2"
    and ne: "salt1 \<noteq> salt2"
  shows "h1 \<noteq> h2"
proof
  assume eq: "h1 = h2"
  from generate_with_salt [OF g1] obtain hash1
    where h1: "h1 = signature this @ to_hex (hash1 @ salt1)" ..
  from generate_with_salt [OF g2] obtain hash2
    where h2: "h2 = signature this @ to_hex (hash2 @ salt2)" ..
  from eq h1 h2 have "to_hex (hash1 @ salt1) = to_hex (hash2 @ salt2)" by simp
  then have "hash1 @ salt1 = hash2 @ salt2" by (rule to_hex_inj)
  with len have "salt1 = salt2" by simp
  with ne show False by contradiction
qed

subsection \<open>The read-me's example, whose remaining length is odd\<close>

text \<open>
  With the signature \<open>hash512\<close> the remaining length is \<open>128 - 32 - 7 = 89\<close>, and
  \<open>pbkdf2Sync\<close> is asked for \<open>44.5\<close> bytes. Whatever the collaborators return, a
  string that \<open>generate\<close> returns has 7 characters and two per byte, never 128.
\<close>

lemma generate_readme_length:
  "generate cr readme_hasher val = Inr h \<Longrightarrow> int (length h) \<noteq> hashLength readme_hasher"
proof -
  assume "generate cr readme_hasher val = Inr h"
  from generate_length [OF this] obtain k
    where "length h = length (signature readme_hasher) + 2 * k" ..
  then have "length h = 7 + 2 * k" by (simp add: readme_hasher_def)
  then have "int (length h) \<noteq> 128" by presburger
  then show ?thesis by (simp add: readme_hasher_def)
qed

lemma floor_half_89: "\<lfloor>(89::rat) / 2\<rfloor> = 44"
  using floor_divide_of_int_eq [of 89 2, where ?'a = rat] by simp

lemma example_generate_readme:
  "generate example_crypto readme_hasher val
     = Inl (StringHashError ''Unable to generate hash.'' (Some ERR_OUT_OF_RANGE))"
  by (simp add: generate_def generateSalt_def generateHash_def example_crypto_def
      example_randomBytes_def example_pbkdf2Sync_def readme_hasher_def floor_half_89)

lemma initial_fields_new: "StringHasher_new None = Inr initial_fields"
  by (simp add: StringHasher_new_def)

subsection \<open>The claims\<close>

text \<open>
  C1. For every constructed instance and non-empty value,
  \<open>validate(value, generate(value))\<close> is said to be true. For the instance of the
  read-me's example it is not, whatever the random source and the key derivation
  return: \<open>generate\<close> throws or returns a string whose length is not \<open>hashLength\<close>,
  which \<open>validate\<close> rejects. With collaborators that check their arguments as Node
  does, \<open>generate\<close> throws. (Where both lengths are even the round trip holds:
  \<open>validate_generated_even\<close>.)
\<close>

theorem readme_example_does_not_validate:
  "StringHasher_new (Some readme_options) = Inr readme_hasher
   \<and> validate_generated cr readme_hasher ''qwe123asd456!@#'' \<noteq> Inr True
   \<and> validate_generated example_crypto readme_hasher ''qwe123asd456!@#''
       = Inl (StringHashError ''Unable to generate hash.'' (Some ERR_OUT_OF_RANGE))"
proof (intro conjI)
  show "StringHasher_new (Some readme_options) = Inr readme_hasher"
    by (rule readme_hasher_new)
  show "validate_generated cr readme_hasher ''qwe123asd456!@#'' \<noteq> Inr True"
  proof (cases "generate cr readme_hasher ''qwe123asd456!@#''")
    case (Inl e)
    then show ?thesis by (simp add: validate_generated_def)
  next
    case (Inr h)
    from generate_readme_length [OF this]
    have "validate cr readme_hasher ''qwe123asd456!@#'' h = Inr False"
      by (rule validate_other_length)
    with Inr show ?thesis by (simp add: validate_generated_def)
  qed
  show "validate_generated example_crypto readme_hasher ''qwe123asd456!@#''
       = Inl (StringHashError ''Unable to generate hash.'' (Some ERR_OUT_OF_RANGE))"
    by (simp add: validate_generated_def example_generate_readme)
qed

text \<open>
  C2. \<open>validate\<close> is said to return false, and never to throw, when the buffer decoded
  from the hash and the derived buffer differ in length. For the instance built without
  options and a hash of 128 characters with the right signature whose derived segment
  starts with \<open>zz\<close>, the decoded buffer is empty, the derived one has 45 bytes, and
  \<open>timingSafeEqual\<close> throws: the error leaves \<open>validate\<close> uncaught.
\<close>

theorem validate_throws_on_length_mismatch:
  assumes "returns_requested_length cr"
  shows "StringHasher_new None = Inr initial_fields
   \<and> int (length malformed_hash) = hashLength initial_fields
   \<and> validate cr initial_fields ''value'' malformed_hash
       = Inl (Uncaught ERR_CRYPTO_TIMING_SAFE_EQUAL_LENGTH)"
proof (intro conjI)
  show "StringHasher_new None = Inr initial_fields" by (rule initial_fields_new)
  show len: "int (length malformed_hash) = hashLength initial_fields"
    by (simp add: malformed_hash_def initial_fields_def)
  let ?h0 = initial_fields
  have pre: "substring malformed_hash 0 (int (length (signature ?h0))) = signature ?h0"
    unfolding substring_prefix by (simp add: malformed_hash_def initial_fields_def)
  have "substring (''sha512'' @ (''zz'' @ replicate 88 (CHR ''0'')) @ replicate 32 (CHR ''0''))
          (int (length ''sha512''))
          (int (length ''sha512'') + int (length (''zz'' @ replicate 88 (CHR ''0''))))
        = ''zz'' @ replicate 88 (CHR ''0'')"
    by (rule substring_middle)
  then have mid: "substring malformed_hash (int (length (signature ?h0)))
          (hashLength ?h0 - saltLength ?h0) = ''zz'' @ replicate 88 (CHR ''0'')"
    by (simp add: malformed_hash_def initial_fields_def)
  have dec: "from_hex (''zz'' @ replicate 88 (CHR ''0'')) = []"
    by (simp add: hex_value_def)
  have bl: "buffLength ?h0 = 2 * int 45" by (simp add: initial_fields_def)
  from generateHash_even [OF assms bl] obtain testBuff where
    t: "generateHash cr ?h0 ''value''
          (from_hex (substring_from malformed_hash
             (int (length (signature ?h0)) + buffLength ?h0))) = Inr testBuff"
       "length testBuff = 45"
    by blast
  show "validate cr ?h0 ''value'' malformed_hash
       = Inl (Uncaught ERR_CRYPTO_TIMING_SAFE_EQUAL_LENGTH)"
    unfolding validate_def Let_def len pre mid dec t(1)
    by (simp add: timingSafeEqual_def t(2))
qed

theorem validate_throws_on_length_mismatch_witness:
  "returns_requested_length example_crypto
   \<and> validate example_crypto initial_fields ''value'' malformed_hash
       = Inl (Uncaught ERR_CRYPTO_TIMING_SAFE_EQUAL_LENGTH)"
  using validate_throws_on_length_mismatch [OF example_crypto_returns_requested_length]
    example_crypto_returns_requested_length by simp

text \<open>
  C5. If the value is empty, or the length of the hash is not \<open>hashLength\<close>, or the
  first \<open>signature.length\<close> characters of the hash are not the signature, then
  \<open>validate\<close> returns false. It does so for every instance and for every pair of
  collaborators, also for a key derivation that throws at every call (a call would end
  \<open>validate\<close> with that error): the key derivation is not called and nothing is thrown.
\<close>

theorem validate_rejects_early:
  "val = [] \<or> int (length hash) \<noteq> hashLength this
     \<or> take (length (signature this)) hash \<noteq> signature this
   \<Longrightarrow> validate cr this val hash = Inr False"
  by (auto simp: validate_def substring_prefix)

theorem validate_rejects_early_witness:
  "StringHasher_new None = Inr initial_fields
   \<and> validate unavailable_crypto initial_fields '''' ''anything'' = Inr False
   \<and> int (length ''sha512abc'') \<noteq> hashLength initial_fields
   \<and> validate unavailable_crypto initial_fields ''value'' ''sha512abc'' = Inr False
   \<and> int (length (''sha256'' @ replicate 122 (CHR ''0''))) = hashLength initial_fields
   \<and> take (length (signature initial_fields)) (''sha256'' @ replicate 122 (CHR ''0''))
       \<noteq> signature initial_fields
   \<and> validate unavailable_crypto initial_fields ''value''
        (''sha256'' @ replicate 122 (CHR ''0'')) = Inr False"
proof -
  have a: "('''' :: string) = []" by simp
  have b: "int (length ''sha512abc'') \<noteq> hashLength initial_fields"
    by (simp add: initial_fields_def)
  have c: "take (length (signature initial_fields)) (''sha256'' @ replicate 122 (CHR ''0''))
       \<noteq> signature initial_fields"
    by (simp add: initial_fields_def)
  have d: "int (length (''sha256'' @ replicate 122 (CHR ''0''))) = hashLength initial_fields"
    by (simp add: initial_fields_def)
  show ?thesis
    using validate_rejects_early
            [of "''''" "''anything''" initial_fields unavailable_crypto]
          validate_rejects_early
            [of "''value''" "''sha512abc''" initial_fields unavailable_crypto]
          validate_rejects_early
            [of "''value''" "''sha256'' @ replicate 122 (CHR ''0'')" initial_fields
              unavailable_crypto]
          a b c d initial_fields_new
    by blast
qed

text \<open>
  C6. The string \<open>generate\<close> returns is the signature, then the derived bytes and the
  salt bytes in lower-case hexadecimal (\<open>generate_layout\<close>), and is said to have
  exactly \<open>hashLength\<close> characters. For the instance of the read-me's example no
  string that \<open>generate\<close> returns has 128 characters, whatever the collaborators
  return; with collaborators that check their arguments as Node does, \<open>generate\<close>
  throws. (Where both lengths are even the length is \<open>hashLength\<close>:
  \<open>generate_even_length\<close>.)
\<close>

theorem readme_example_length_is_not_hashLength:
  "StringHasher_new (Some readme_options) = Inr readme_hasher
   \<and> \<not> (generate cr readme_hasher val = Inr h \<and> int (length h) = hashLength readme_hasher)
   \<and> generate example_crypto readme_hasher ''qwe123asd456!@#''
       = Inl (StringHashError ''Unable to generate hash.'' (Some ERR_OUT_OF_RANGE))"
  using readme_hasher_new generate_readme_length [of cr val h] example_generate_readme
  by blast

text \<open>
  C9. Two runs of \<open>generate\<close> on one value and one instance with different salts are
  said to return different strings that both validate. The strings differ whenever both
  runs return (\<open>generate_distinct_salts\<close>). For the instance of the read-me's example
  no two runs return strings that both validate, whatever the salts and the key
  derivation: a returned string is rejected for its length.
\<close>

theorem readme_example_two_runs_do_not_validate:
  "StringHasher_new (Some readme_options) = Inr readme_hasher
   \<and> \<not> (generate (with_salt cr salt1) readme_hasher val = Inr h1
        \<and> generate (with_salt cr salt2) readme_hasher val = Inr h2
        \<and> validate cr readme_hasher val h1 = Inr True
        \<and> validate cr readme_hasher val h2 = Inr True)"
proof -
  have "validate cr readme_hasher val h1 = Inr False"
    if "generate (with_salt cr salt1) readme_hasher val = Inr h1"
    using generate_readme_length [OF that] by (rule validate_other_length)
  then show ?thesis using readme_hasher_new by auto
qed

end
